theory Spec2Isabelle
  imports Main
begin

section \<open>Python values used by the RAG system\<close>

subsection \<open>Strings\<close>

text \<open>
  A Python \<open>str\<close> is modelled as a \<open>string\<close> holding its UTF-8 bytes. The
  operations the program applies to strings work on code points, so the bytes are first
  grouped into encoded characters: a lead byte followed by its continuation bytes
  (\<open>0x80\<close> to \<open>0xBF\<close>).
\<close>

definition is_cont :: "char \<Rightarrow> bool" where
  "is_cont c = (128 \<le> (of_char c :: nat) \<and> (of_char c :: nat) < 192)"

function chars_of :: "string \<Rightarrow> string list" where
  "chars_of [] = []"
| "chars_of (c # cs) = (c # takeWhile is_cont cs) # chars_of (dropWhile is_cont cs)"
  by pat_completeness auto
termination
  by (relation "measure length") (auto simp: length_dropWhile_le less_Suc_eq_le)

text \<open>
  \<open>str.isspace\<close>: the white space code points of Python 3, each in its encoding
  (U+0009 to U+000D, U+001C to U+0020, U+0085, U+00A0, U+1680, U+2000 to U+200A, U+2028,
  U+2029, U+202F, U+205F, U+3000).
\<close>

definition whitespace :: "string list" where
  "whitespace =
    [[CHR 0x09], [CHR 0x0A], [CHR 0x0B], [CHR 0x0C], [CHR 0x0D],
     [CHR 0x1C], [CHR 0x1D], [CHR 0x1E], [CHR 0x1F], [CHR 0x20],
     [CHR 0xC2, CHR 0x85], [CHR 0xC2, CHR 0xA0], [CHR 0xE1, CHR 0x9A, CHR 0x80],
     [CHR 0xE2, CHR 0x80, CHR 0x80], [CHR 0xE2, CHR 0x80, CHR 0x81],
     [CHR 0xE2, CHR 0x80, CHR 0x82], [CHR 0xE2, CHR 0x80, CHR 0x83],
     [CHR 0xE2, CHR 0x80, CHR 0x84], [CHR 0xE2, CHR 0x80, CHR 0x85],
     [CHR 0xE2, CHR 0x80, CHR 0x86], [CHR 0xE2, CHR 0x80, CHR 0x87],
     [CHR 0xE2, CHR 0x80, CHR 0x88], [CHR 0xE2, CHR 0x80, CHR 0x89],
     [CHR 0xE2, CHR 0x80, CHR 0x8A], [CHR 0xE2, CHR 0x80, CHR 0xA8],
     [CHR 0xE2, CHR 0x80, CHR 0xA9], [CHR 0xE2, CHR 0x80, CHR 0xAF],
     [CHR 0xE2, CHR 0x81, CHR 0x9F], [CHR 0xE3, CHR 0x80, CHR 0x80]]"

definition isspace :: "string \<Rightarrow> bool" where
  "isspace ch = (ch \<in> set whitespace)"

text \<open>\<open>s.strip()\<close>: the string without its leading and trailing white space.\<close>

definition strip :: "string \<Rightarrow> string" where
  "strip s = concat (rev (dropWhile isspace (rev (dropWhile isspace (chars_of s)))))"

text \<open>
  \<open>s.lower()\<close> on the ASCII letters. Python also lowercases cased letters beyond
  ASCII; the program only compares the result with \<open>pdf\<close>, \<open>txt\<close>,
  \<open>docx\<close> and \<open>doc\<close>, and no code point beyond ASCII lowercases to one of
  their letters, so the comparisons come out as in Python.
\<close>

definition lower_char :: "char \<Rightarrow> char" where
  "lower_char c =
     (if 65 \<le> (of_char c :: nat) \<and> (of_char c :: nat) \<le> 90
      then char_of ((of_char c :: nat) + 32) else c)"

definition lower :: "string \<Rightarrow> string" where
  "lower s = map lower_char s"

text \<open>\<open>s.split(sep)\<close> for a one-character separator: never the empty list.\<close>

fun py_split :: "char \<Rightarrow> string \<Rightarrow> string list" where
  "py_split sep [] = [[]]"
| "py_split sep (c # cs) =
     (if c = sep then [] # py_split sep cs
      else (case py_split sep cs of
              [] \<Rightarrow> [[c]]
            | w # ws \<Rightarrow> (c # w) # ws))"

text \<open>\<open>str(n)\<close> for a non-negative integer.\<close>

fun str_nat :: "nat \<Rightarrow> string" where
  "str_nat n =
     (if n < 10 then [char_of (48 + n)]
      else str_nat (n div 10) @ [char_of (48 + n mod 10)])"

declare str_nat.simps [simp del]

subsection \<open>Exceptions\<close>

text \<open>
  An exception value is an instance of a subclass of \<open>Exception\<close>: its class and the
  text \<open>str(e)\<close>. Every \<open>except Exception\<close> and every bare \<open>except\<close> of the
  program catches all of them; \<open>except PermissionError\<close> catches that class only.
  Signals outside \<open>Exception\<close> (\<open>KeyboardInterrupt\<close>, \<open>SystemExit\<close>) are not
  modelled.
\<close>

datatype exn_class =
  ValueError | KeyError | AttributeError | PermissionError | OSError | RuntimeError

datatype py_exn = Exn exn_class string

fun exn_class_of :: "py_exn \<Rightarrow> exn_class" where
  "exn_class_of (Exn c m) = c"

fun str_exn :: "py_exn \<Rightarrow> string" where
  "str_exn (Exn c m) = m"

type_synonym 'a result = "py_exn + 'a"

section \<open>Data model\<close>

text \<open>
  A LangChain \<open>Document\<close>: its text and its metadata dictionary. Metadata values are
  kept as strings.
\<close>

record document =
  page_content :: string
  metadata :: "string \<rightharpoonup> string"

text \<open>A Streamlit uploaded file: \<open>name\<close> and the bytes \<open>getvalue()\<close> returns.\<close>

record uploaded_file =
  name :: string
  getvalue :: string

text \<open>
  A Chroma vector store, as far as the program observes it: the chunks of its
  collection, so that \<open>_collection.count()\<close> is their number.
\<close>

datatype chroma = Chroma (collection: "document list")

datatype retrieval_qa = RetrievalQA

text \<open>The fields of a \<open>RAGSystem\<close> object that its methods read and write.\<close>

record rag_system =
  vectorstore :: "chroma option"
  qa_chain :: "retrieval_qa option"
  documents :: "document list"

text \<open>The dictionary \<open>query_knowledge_base\<close> returns.\<close>

record query_result =
  answer :: string
  source_documents :: "document list"

text \<open>The dictionary \<open>get_knowledge_base_stats\<close> returns; \<open>list(sources)\<close> lists a
  set in no specified order, so the set is kept.\<close>

record kb_stats =
  total_documents :: nat
  sources :: "string set"

section \<open>The world outside the object\<close>

datatype level = Success | Info | Warning | Error

text \<open>
  \<^item> \<open>persist_dir\<close>: the persist directory on disk, \<open>None\<close> when it does not exist,
    otherwise the chunks of the collection stored there;
  \<^item> \<open>client_cache\<close>: the Chroma client that this Python process already holds for the
    persist directory, with the chunks it serves; \<open>None\<close> in a process that has opened
    none. The library keeps one client per path for the life of the process, and
    deleting the directory does not close it;
  \<^item> \<open>rmtree_outcomes\<close>, \<open>chroma_outcomes\<close>: what the successive calls of
    \<open>shutil.rmtree(persist_directory)\<close> and of the \<open>Chroma(...)\<close> constructor will do
    (\<open>Some e\<close>: raise \<open>e\<close>; \<open>None\<close>, or no entry left: succeed). One operation can
    call each several times, and the calls need not agree;
  \<^item> \<open>ui\<close>: the messages shown through \<open>st.success\<close>, \<open>st.info\<close>, \<open>st.warning\<close>
    and \<open>st.error\<close>, oldest first;
  \<^item> \<open>invoked\<close>: the questions handed to \<open>qa_chain.invoke\<close>, oldest first. The chain
    embeds the question, retrieves and generates; nothing else in a query reaches the
    embedding model or the language model.
\<close>

record world =
  persist_dir :: "document list option"
  client_cache :: "document list option"
  rmtree_outcomes :: "py_exn option list"
  chroma_outcomes :: "py_exn option list"
  ui :: "(level \<times> string) list"
  invoked :: "string list"

definition show_ui :: "level \<Rightarrow> string \<Rightarrow> world \<Rightarrow> world" where
  "show_ui l m w = w\<lparr>ui := ui w @ [(l, m)]\<rparr>"

text \<open>
  The external collaborators, as parameters: what each call returns or raises, as a
  function of its arguments.
\<close>

datatype loader = PyPDFLoader string | TextLoader string | UnstructuredWordDocumentLoader string

text \<open>The dictionary \<open>qa_chain.invoke\<close> returns: the keys the program reads.\<close>

record response =
  result_key :: "string option"
  source_documents_key :: "document list option"

record env =
  embeddings_new :: "py_exn option"
  qa_chain_new :: "py_exn option"
  loader_load :: "loader \<Rightarrow> document list result"
  tempfile_write :: "uploaded_file \<Rightarrow> string result"
  split_documents :: "document list \<Rightarrow> document list result"
  add_documents :: "document list \<Rightarrow> py_exn option"
  collection_count :: "py_exn option"
  unlink :: "string \<Rightarrow> py_exn option"
  client_reset :: "py_exn option"
  qa_invoke :: "string \<Rightarrow> response result"
  speak_text :: "string \<Rightarrow> bool \<Rightarrow> py_exn option"

subsection \<open>The emoji of the messages, in UTF-8\<close>

definition check_mark :: string where
  "check_mark = [CHR 0xE2, CHR 0x9C, CHR 0x85]"

definition cross_mark :: string where
  "cross_mark = [CHR 0xE2, CHR 0x9D, CHR 0x8C]"

definition books :: string where
  "books = [CHR 0xF0, CHR 0x9F, CHR 0x93, CHR 0x9A]"

definition new_button :: string where
  "new_button = [CHR 0xF0, CHR 0x9F, CHR 0x86, CHR 0x95]"

definition party :: string where
  "party = [CHR 0xF0, CHR 0x9F, CHR 0x8E, CHR 0x89]"

definition wastebasket :: string where
  "wastebasket = [CHR 0xF0, CHR 0x9F, CHR 0x97, CHR 0x91, CHR 0xEF, CHR 0xB8, CHR 0x8F]"

definition warning_sign :: string where
  "warning_sign = [CHR 0xE2, CHR 0x9A, CHR 0xA0, CHR 0xEF, CHR 0xB8, CHR 0x8F]"

definition arrows :: string where
  "arrows = [CHR 0xF0, CHR 0x9F, CHR 0x94, CHR 0x84]"

section \<open>RAGSystem.load_document\<close>

text \<open>
  The body of the \<open>try\<close>: the loader is chosen by the lowercased file type, an unknown
  type raises \<open>ValueError\<close>, and the loader's constructor and \<open>load()\<close> may raise.
\<close>

definition load_document_try :: "env \<Rightarrow> string \<Rightarrow> string \<Rightarrow> document list result" where
  "load_document_try e file_path file_type =
     (if lower file_type = ''pdf'' then loader_load e (PyPDFLoader file_path)
      else if lower file_type = ''txt'' then loader_load e (TextLoader file_path)
      else if lower file_type \<in> set [''docx'', ''doc'']
        then loader_load e (UnstructuredWordDocumentLoader file_path)
      else Inl (Exn ValueError (''Unsupported file type: '' @ file_type)))"

text \<open>The method: \<open>except Exception\<close> reports the failure and returns \<open>[]\<close>.\<close>

definition load_document ::
  "env \<Rightarrow> string \<Rightarrow> string \<Rightarrow> world \<Rightarrow> document list result \<times> world" where
  "load_document e file_path file_type w =
     (case load_document_try e file_path file_type of
        Inr docs \<Rightarrow> (Inr docs, w)
      | Inl x \<Rightarrow>
          (Inr [],
           show_ui Error
             (cross_mark @ '' Error loading document '' @ file_path @ '': '' @ str_exn x) w))"

section \<open>Storage\<close>

text \<open>\<open>shutil.rmtree(self.persist_directory)\<close>: the next scripted outcome.\<close>

definition rmtree :: "world \<Rightarrow> unit result \<times> world" where
  "rmtree w =
     (case rmtree_outcomes w of
        [] \<Rightarrow> (Inr (), w\<lparr>persist_dir := None\<rparr>)
      | None # rest \<Rightarrow> (Inr (), w\<lparr>persist_dir := None, rmtree_outcomes := rest\<rparr>)
      | Some x # rest \<Rightarrow> (Inl x, w\<lparr>rmtree_outcomes := rest\<rparr>))"

text \<open>
  \<open>Chroma(persist_directory=..., embedding_function=...)\<close>. When the process already
  holds a client for the path, the new store is served by that client and has its
  chunks, whatever has happened to the directory since. Otherwise the directory is opened:
  the collection stored there when there is one (what \<open>setup_vectorstore\<close> relies on to
  resume), and a new directory with an empty collection otherwise; the client is then
  held by the process.
\<close>

definition stored :: "world \<Rightarrow> document list" where
  "stored w = (case persist_dir w of None \<Rightarrow> [] | Some cs \<Rightarrow> cs)"

definition chroma_open :: "world \<Rightarrow> chroma \<times> world" where
  "chroma_open w =
     (case client_cache w of
        Some cs \<Rightarrow> (Chroma cs, w)
      | None \<Rightarrow>
          (Chroma (stored w),
           w\<lparr>persist_dir := Some (stored w), client_cache := Some (stored w)\<rparr>))"

definition chroma_init :: "world \<Rightarrow> chroma result \<times> world" where
  "chroma_init w =
     (case chroma_outcomes w of
        [] \<Rightarrow> (case chroma_open w of (vs, w1) \<Rightarrow> (Inr vs, w1))
      | None # rest \<Rightarrow>
          (case chroma_open (w\<lparr>chroma_outcomes := rest\<rparr>) of (vs, w1) \<Rightarrow> (Inr vs, w1))
      | Some x # rest \<Rightarrow> (Inl x, w\<lparr>chroma_outcomes := rest\<rparr>))"

text \<open>The chunks that a store built now would be served from the process's client.\<close>

definition client_chunks :: "world \<Rightarrow> document list" where
  "client_chunks w = (case client_cache w of None \<Rightarrow> [] | Some cs \<Rightarrow> cs)"

text \<open>\<open>vectorstore._collection.count()\<close> on a store.\<close>

definition count :: "env \<Rightarrow> chroma \<Rightarrow> nat result" where
  "count e vs =
     (case collection_count e of
        Some x \<Rightarrow> Inl x
      | None \<Rightarrow> Inr (length (collection vs)))"

text \<open>An attribute read on \<open>None\<close>.\<close>

definition none_has_no :: "string \<Rightarrow> py_exn" where
  "none_has_no attr =
     Exn AttributeError
       ([CHR 0x27] @ ''NoneType'' @ [CHR 0x27] @ '' object has no attribute '' @
        [CHR 0x27] @ attr @ [CHR 0x27])"

text \<open>
  \<open>self.vectorstore.add_documents(texts)\<close>: embeds the chunks and appends them to the
  collection, which Chroma persists; when it raises, nothing is added.
\<close>

definition vectorstore_add_documents ::
  "env \<Rightarrow> document list \<Rightarrow> rag_system \<Rightarrow> world \<Rightarrow> unit result \<times> rag_system \<times> world" where
  "vectorstore_add_documents e texts s w =
     (case vectorstore s of
        None \<Rightarrow> (Inl (none_has_no ''add_documents''), s, w)
      | Some vs \<Rightarrow>
          (case add_documents e texts of
             Some x \<Rightarrow> (Inl x, s, w)
           | None \<Rightarrow>
               (Inr (), s\<lparr>vectorstore := Some (Chroma (collection vs @ texts))\<rparr>,
                w\<lparr>persist_dir := Some (collection vs @ texts),
                  client_cache := Some (collection vs @ texts)\<rparr>)))"

section \<open>Construction\<close>

definition setup_embeddings :: "env \<Rightarrow> world \<Rightarrow> unit result \<times> world" where
  "setup_embeddings e w =
     (case embeddings_new e of
        None \<Rightarrow> (Inr (), show_ui Success (check_mark @ '' Embeddings model loaded successfully'') w)
      | Some x \<Rightarrow>
          (Inl x, show_ui Error (cross_mark @ '' Error loading embeddings: '' @ str_exn x) w))"

text \<open>The \<open>try\<close> block of \<open>setup_fresh_vectorstore\<close>.\<close>

definition setup_fresh_vectorstore_try ::
  "rag_system \<Rightarrow> world \<Rightarrow> unit result \<times> rag_system \<times> world" where
  "setup_fresh_vectorstore_try s w =
     (case (if persist_dir w \<noteq> None then rmtree w else (Inr (), w)) of
        (Inl x, w1) \<Rightarrow> (Inl x, s, w1)
      | (Inr u, w1) \<Rightarrow>
          (case chroma_init w1 of
             (Inl x, w2) \<Rightarrow> (Inl x, s, w2)
           | (Inr vs, w2) \<Rightarrow>
               (Inr (), s\<lparr>vectorstore := Some vs\<rparr>,
                show_ui Info (new_button @ '' Created fresh knowledge base'') w2)))"

text \<open>Its handler reports the exception and raises it again.\<close>

definition setup_fresh_vectorstore ::
  "rag_system \<Rightarrow> world \<Rightarrow> unit result \<times> rag_system \<times> world" where
  "setup_fresh_vectorstore s w =
     (case setup_fresh_vectorstore_try s w of
        (Inl x, s1, w1) \<Rightarrow>
          (Inl x, s1,
           show_ui Error (cross_mark @ '' Error setting up fresh vectorstore: '' @ str_exn x) w1)
      | (Inr u, s1, w1) \<Rightarrow> (Inr u, s1, w1))"

text \<open>
  \<open>setup_qa_chain\<close>: builds the language model and the chain over
  \<open>self.vectorstore.as_retriever(...)\<close>; every failure is reported and raised again.
\<close>

definition setup_qa_chain ::
  "env \<Rightarrow> rag_system \<Rightarrow> world \<Rightarrow> unit result \<times> rag_system \<times> world" where
  "setup_qa_chain e s w =
     (case (case qa_chain_new e of
              Some x \<Rightarrow> Inl x
            | None \<Rightarrow>
                (case vectorstore s of
                   None \<Rightarrow> Inl (none_has_no ''as_retriever'')
                 | Some vs \<Rightarrow> Inr RetrievalQA)) of
        Inl x \<Rightarrow> (Inl x, s, show_ui Error (cross_mark @ '' Error setting up QA chain: '' @ str_exn x) w)
      | Inr qa \<Rightarrow>
          (Inr (), s\<lparr>qa_chain := Some qa\<rparr>,
           show_ui Success
             (check_mark @ '' QA chain initialized successfully with Google Gemini'') w))"

text \<open>
  \<open>RAGSystem.__init__\<close>: \<open>Inr\<close> the constructed object, \<open>Inl\<close> the exception that
  leaves no object behind.
\<close>

definition RAGSystem :: "env \<Rightarrow> world \<Rightarrow> rag_system result \<times> world" where
  "RAGSystem e w =
     (let s = \<lparr>vectorstore = None, qa_chain = None, documents = []\<rparr> in
      case setup_embeddings e w of
        (Inl x, w1) \<Rightarrow> (Inl x, w1)
      | (Inr u, w1) \<Rightarrow>
          (case setup_fresh_vectorstore s w1 of
             (Inl x, s2, w2) \<Rightarrow> (Inl x, w2)
           | (Inr u, s2, w2) \<Rightarrow>
               (case setup_qa_chain e s2 w2 of
                  (Inl x, s3, w3) \<Rightarrow> (Inl x, w3)
                | (Inr u, s3, w3) \<Rightarrow> (Inr s3, w3))))"

section \<open>RAGSystem.process_documents\<close>

text \<open>The loop that writes \<open>source\<close> and \<open>file_type\<close> into every chunk's metadata.\<close>

definition add_metadata :: "string \<Rightarrow> string \<Rightarrow> document list \<Rightarrow> document list" where
  "add_metadata file_name file_extension texts =
     map (\<lambda>t. t\<lparr>metadata := (metadata t)(''source'' \<mapsto> file_name,
                                          ''file_type'' \<mapsto> file_extension)\<rparr>) texts"

text \<open>The block under \<open>if documents:\<close>.\<close>

definition index_documents ::
  "env \<Rightarrow> uploaded_file \<Rightarrow> string \<Rightarrow> document list \<Rightarrow> nat \<Rightarrow> rag_system \<Rightarrow> world
     \<Rightarrow> unit result \<times> nat \<times> rag_system \<times> world" where
  "index_documents e f file_extension docs processed_count s w =
     (case split_documents e docs of
        Inl x \<Rightarrow> (Inl x, processed_count, s, w)
      | Inr split \<Rightarrow>
          (let texts = add_metadata (name f) file_extension split in
           case vectorstore_add_documents e texts s w of
             (Inl x, s1, w1) \<Rightarrow> (Inl x, processed_count, s1, w1)
           | (Inr u, s1, w1) \<Rightarrow>
               (Inr (), processed_count + 1, s1\<lparr>documents := documents s1 @ texts\<rparr>,
                show_ui Success
                  (check_mark @ '' Processed: '' @ name f @ '' ('' @
                   str_nat (length texts) @ '' chunks)'') w1)))"

text \<open>The \<open>try\<close> block of the loop body, for one uploaded file.\<close>

definition process_file_try ::
  "env \<Rightarrow> uploaded_file \<Rightarrow> nat \<Rightarrow> rag_system \<Rightarrow> world
     \<Rightarrow> unit result \<times> nat \<times> rag_system \<times> world" where
  "process_file_try e f processed_count s w =
     (case tempfile_write e f of
        Inl x \<Rightarrow> (Inl x, processed_count, s, w)
      | Inr temp_file_path \<Rightarrow>
          (let file_extension = lower (last (py_split CHR ''.'' (name f))) in
           case load_document e temp_file_path file_extension w of
             (Inl x, w1) \<Rightarrow> (Inl x, processed_count, s, w1)
           | (Inr docs, w1) \<Rightarrow>
               (case (if docs \<noteq> []
                      then index_documents e f file_extension docs processed_count s w1
                      else (Inr (), processed_count, s, w1)) of
                  (Inl x, n2, s2, w2) \<Rightarrow> (Inl x, n2, s2, w2)
                | (Inr u, n2, s2, w2) \<Rightarrow>
                    (case unlink e temp_file_path of
                       Some x \<Rightarrow> (Inl x, n2, s2, w2)
                     | None \<Rightarrow> (Inr (), n2, s2, w2)))))"

text \<open>The loop body: \<open>except Exception\<close> reports the file and the loop goes on.\<close>

definition process_file ::
  "env \<Rightarrow> uploaded_file \<Rightarrow> nat \<Rightarrow> rag_system \<Rightarrow> world \<Rightarrow> nat \<times> rag_system \<times> world" where
  "process_file e f processed_count s w =
     (case process_file_try e f processed_count s w of
        (Inl x, n1, s1, w1) \<Rightarrow>
          (n1, s1,
           show_ui Error (cross_mark @ '' Error processing '' @ name f @ '': '' @ str_exn x) w1)
      | (Inr u, n1, s1, w1) \<Rightarrow> (n1, s1, w1))"

text \<open>The \<open>for\<close> loop over the uploaded files.\<close>

fun process_files ::
  "env \<Rightarrow> uploaded_file list \<Rightarrow> nat \<Rightarrow> rag_system \<Rightarrow> world \<Rightarrow> nat \<times> rag_system \<times> world" where
  "process_files e [] processed_count s w = (processed_count, s, w)"
| "process_files e (f # fs) processed_count s w =
     (case process_file e f processed_count s w of
        (n1, s1, w1) \<Rightarrow> process_files e fs n1 s1 w1)"

definition process_documents ::
  "env \<Rightarrow> uploaded_file list \<Rightarrow> rag_system \<Rightarrow> world \<Rightarrow> nat result \<times> rag_system \<times> world" where
  "process_documents e uploaded_files s w =
     (case process_files e uploaded_files 0 s w of
        (processed_count, s1, w1) \<Rightarrow>
          (Inr processed_count, s1,
           if processed_count > 0
           then show_ui Success
                  (party @ '' Successfully processed '' @ str_nat processed_count @
                   '' documents!'') w1
           else w1))"

section \<open>RAGSystem.query_knowledge_base\<close>

definition not_initialized :: string where
  "not_initialized =
     cross_mark @ '' QA system not initialized. Please check your Google API key.''"

definition no_documents :: string where
  "no_documents =
     books @ '' No documents in knowledge base. Please upload some documents first.''"

text \<open>The \<open>try\<close> block.\<close>

definition query_knowledge_base_try ::
  "env \<Rightarrow> string \<Rightarrow> rag_system \<Rightarrow> world \<Rightarrow> query_result result \<times> world" where
  "query_knowledge_base_try e question s w =
     (if qa_chain s = None
      then (Inr \<lparr>answer = not_initialized, source_documents = []\<rparr>, w)
      else
        (case vectorstore s of
           None \<Rightarrow> (Inl (none_has_no ''_collection''), w)
         | Some vs \<Rightarrow>
             (case count e vs of
                Inl x \<Rightarrow> (Inl x, w)
              | Inr c \<Rightarrow>
                  if c = 0
                  then (Inr \<lparr>answer = no_documents, source_documents = []\<rparr>, w)
                  else
                    (let w1 = w\<lparr>invoked := invoked w @ [question]\<rparr> in
                     case qa_invoke e question of
                       Inl x \<Rightarrow> (Inl x, w1)
                     | Inr r \<Rightarrow>
                         (case result_key r of
                            None \<Rightarrow>
                              (Inl (Exn KeyError ([CHR 0x27] @ ''result'' @ [CHR 0x27])), w1)
                          | Some a \<Rightarrow>
                              (Inr \<lparr>answer = a,
                                    source_documents =
                                      (case source_documents_key r of
                                         None \<Rightarrow> []
                                       | Some ds \<Rightarrow> ds)\<rparr>, w1))))))"

text \<open>The method: the handler turns the exception into an answer.\<close>

definition query_knowledge_base ::
  "env \<Rightarrow> string \<Rightarrow> rag_system \<Rightarrow> world \<Rightarrow> query_result result \<times> world" where
  "query_knowledge_base e question s w =
     (case query_knowledge_base_try e question s w of
        (Inr r, w1) \<Rightarrow> (Inr r, w1)
      | (Inl x, w1) \<Rightarrow>
          (Inr \<lparr>answer = cross_mark @ '' Error processing your question: '' @ str_exn x,
                source_documents = []\<rparr>,
           show_ui Error (cross_mark @ '' Error querying knowledge base: '' @ str_exn x) w1))"

section \<open>RAGSystem.get_knowledge_base_stats\<close>

definition get_knowledge_base_stats ::
  "env \<Rightarrow> rag_system \<Rightarrow> world \<Rightarrow> kb_stats result \<times> world" where
  "get_knowledge_base_stats e s w =
     (case vectorstore s of
        None \<Rightarrow> (Inr \<lparr>total_documents = 0, sources = {}\<rparr>, w)
      | Some vs \<Rightarrow>
          (case count e vs of
             Inr total_docs \<Rightarrow>
               (Inr \<lparr>total_documents = total_docs,
                     sources = set (List.map_filter (\<lambda>doc. metadata doc ''source'') (documents s))\<rparr>,
                w)
           | Inl x \<Rightarrow>
               (Inr \<lparr>total_documents = 0, sources = {}\<rparr>,
                show_ui Error (cross_mark @ '' Error getting stats: '' @ str_exn x) w)))"

section \<open>RAGSystem.clear_knowledge_base\<close>

text \<open>
  Closing the store: \<open>_client.reset()\<close> empties the database when the client allows
  it (the process keeps the client, now empty), and only then is \<open>self.vectorstore\<close> set to \<open>None\<close>; when it raises, the bare
  \<open>except\<close> passes and the field keeps the old store.
\<close>

definition close_vectorstore :: "env \<Rightarrow> rag_system \<Rightarrow> world \<Rightarrow> rag_system \<times> world" where
  "close_vectorstore e s w =
     (case vectorstore s of
        None \<Rightarrow> (s, w)
      | Some vs \<Rightarrow>
          (case client_reset e of
             Some x \<Rightarrow> (s, w)
           | None \<Rightarrow>
               (s\<lparr>vectorstore := None\<rparr>,
                w\<lparr>persist_dir := map_option (\<lambda>cs. []) (persist_dir w),
                  client_cache := map_option (\<lambda>cs. []) (client_cache w)\<rparr>)))"

text \<open>Removing the directory: only \<open>PermissionError\<close> is caught here, with a warning.\<close>

definition remove_directory :: "world \<Rightarrow> unit result \<times> world" where
  "remove_directory w =
     (if persist_dir w \<noteq> None
      then
        (case rmtree w of
           (Inr u, w1) \<Rightarrow>
             (Inr (), show_ui Success (wastebasket @ '' Knowledge base directory cleared'') w1)
         | (Inl x, w1) \<Rightarrow>
             if exn_class_of x = PermissionError
             then (Inr (),
                   show_ui Warning
                     (warning_sign @ '' Could not delete old files, creating fresh database'') w1)
             else (Inl x, w1))
      else (Inr (), w))"

text \<open>The outer \<open>try\<close> block.\<close>

definition clear_knowledge_base_try ::
  "env \<Rightarrow> rag_system \<Rightarrow> world \<Rightarrow> bool result \<times> rag_system \<times> world" where
  "clear_knowledge_base_try e s w =
     (case close_vectorstore e (s\<lparr>documents := []\<rparr>) w of
        (s1, w1) \<Rightarrow>
          (case remove_directory w1 of
             (Inl x, w2) \<Rightarrow> (Inl x, s1, w2)
           | (Inr u, w2) \<Rightarrow>
               (case setup_fresh_vectorstore s1 w2 of
                  (Inl x, s3, w3) \<Rightarrow> (Inl x, s3, w3)
                | (Inr u, s3, w3) \<Rightarrow>
                    (Inr True, s3,
                     show_ui Success (check_mark @ '' Knowledge base cleared successfully!'') w3))))"

text \<open>The method: the handler reports the error, tries once more, and returns \<open>False\<close>.\<close>

definition clear_knowledge_base ::
  "env \<Rightarrow> rag_system \<Rightarrow> world \<Rightarrow> bool result \<times> rag_system \<times> world" where
  "clear_knowledge_base e s w =
     (case clear_knowledge_base_try e s w of
        (Inr b, s1, w1) \<Rightarrow> (Inr b, s1, w1)
      | (Inl x, s1, w1) \<Rightarrow>
          (case setup_fresh_vectorstore s1
                  (show_ui Error (cross_mark @ '' Error clearing knowledge base: '' @ str_exn x) w1) of
             (Inr u, s2, w2) \<Rightarrow>
               (Inr False, s2, show_ui Info (arrows @ '' Created new knowledge base'') w2)
           | (Inl y, s2, w2) \<Rightarrow> (Inr False, s2, w2)))"

section \<open>handle_query (app.py)\<close>

text \<open>A chat message; a user message has no \<open>sources\<close> key.\<close>

record message =
  role :: string
  content :: string
  message_sources :: "document list option"

text \<open>The fields of \<open>st.session_state\<close> that \<open>handle_query\<close> reads and writes.\<close>

record session_state =
  messages :: "message list"
  session_rag_system :: "rag_system option"
  voice_handler :: bool
  voice_enabled :: bool

text \<open>The \<open>try\<close> block: the query, the assistant's message, and speech output.\<close>

definition handle_query_try ::
  "env \<Rightarrow> string \<Rightarrow> string \<Rightarrow> rag_system \<Rightarrow> session_state \<Rightarrow> world
     \<Rightarrow> unit result \<times> session_state \<times> world" where
  "handle_query_try e question tts_method s ss w =
     (case query_knowledge_base e question s w of
        (Inl x, w1) \<Rightarrow> (Inl x, ss, w1)
      | (Inr r, w1) \<Rightarrow>
          (let ss1 = ss\<lparr>messages := messages ss @
                         [\<lparr>role = ''assistant'', content = answer r,
                           message_sources = Some (source_documents r)\<rparr>]\<rparr> in
           if voice_handler ss1 \<and> voice_enabled ss1
           then
             (case speak_text e (answer r) (tts_method = ''Online (Google TTS)'') of
                Some x \<Rightarrow>
                  (Inr (), ss1, show_ui Warning (warning_sign @ '' TTS error: '' @ str_exn x) w1)
              | None \<Rightarrow> (Inr (), ss1, w1))
           else (Inr (), ss1, w1)))"

definition handle_query ::
  "env \<Rightarrow> string \<Rightarrow> string \<Rightarrow> session_state \<Rightarrow> world \<Rightarrow> session_state \<times> world" where
  "handle_query e question tts_method ss w =
     (if strip question = []
      then (ss, show_ui Warning (warning_sign @ '' Please enter a question.'') w)
      else
        (let ss1 = ss\<lparr>messages := messages ss @
                       [\<lparr>role = ''user'', content = question, message_sources = None\<rparr>]\<rparr> in
         case session_rag_system ss1 of
           None \<Rightarrow>
             (ss1,
              show_ui Error
                (cross_mark @ '' RAG system not initialized. Please provide Google API key.'') w)
         | Some s \<Rightarrow>
             (case handle_query_try e question tts_method s ss1 w of
                (Inr u, ss2, w2) \<Rightarrow> (ss2, w2)
              | (Inl x, ss2, w2) \<Rightarrow>
                  (ss2\<lparr>messages := messages ss2 @
                         [\<lparr>role = ''assistant'',
                           content = ''Sorry, I encountered an error while processing your question: ''
                                       @ str_exn x,
                           message_sources = Some []\<rparr>]\<rparr>,
                   show_ui Error (cross_mark @ '' Error processing query: '' @ str_exn x) w2))))"

section \<open>What one file contributes to a batch\<close>

text \<open>
  The chunks that \<open>process_documents\<close> indexes for a file, when every step for that file
  succeeds: the temporary file is written, the loader returns at least one document, the
  splitter returns, there is a store, and the store accepts the chunks. \<open>None\<close> when one
  of the steps fails or the loader returns no document.
\<close>

definition pipeline :: "env \<Rightarrow> bool \<Rightarrow> uploaded_file \<Rightarrow> document list option" where
  "pipeline e has_store f =
     (case tempfile_write e f of
        Inl x \<Rightarrow> None
      | Inr temp_file_path \<Rightarrow>
          (case load_document_try e temp_file_path (lower (last (py_split CHR ''.'' (name f)))) of
             Inl x \<Rightarrow> None
           | Inr docs \<Rightarrow>
               if docs = [] then None
               else
                 (case split_documents e docs of
                    Inl x \<Rightarrow> None
                  | Inr split \<Rightarrow>
                      if has_store \<and>
                         add_documents e
                           (add_metadata (name f) (lower (last (py_split CHR ''.'' (name f)))) split) = None
                      then Some (add_metadata (name f) (lower (last (py_split CHR ''.'' (name f)))) split)
                      else None)))"

section \<open>Concrete inputs\<close>

definition paris :: document where
  "paris = \<lparr>page_content = ''Paris is the capital of France.'', metadata = Map.empty\<rparr>"

text \<open>
  Collaborators that work, except that PDF files are unreadable, the Chroma client
  refuses \<open>reset()\<close> (its default configuration) and the language model is out of quota.
\<close>

definition demo_env :: env where
  "demo_env =
     \<lparr>embeddings_new = None,
      qa_chain_new = None,
      loader_load =
        (\<lambda>l. case l of
               PyPDFLoader p \<Rightarrow> Inl (Exn ValueError ''not a PDF file'')
             | TextLoader p \<Rightarrow> Inr [paris]
             | UnstructuredWordDocumentLoader p \<Rightarrow> Inr [paris, paris]),
      tempfile_write = (\<lambda>f. Inr (''/tmp/upload.'' @ last (py_split CHR ''.'' (name f)))),
      split_documents = (\<lambda>docs. Inr docs),
      add_documents = (\<lambda>texts. None),
      collection_count = None,
      unlink = (\<lambda>p. None),
      client_reset = Some (Exn ValueError ''Resetting is not allowed by this configuration''),
      qa_invoke = (\<lambda>q. Inl (Exn RuntimeError ''quota exceeded'')),
      speak_text = (\<lambda>a online. None)\<rparr>"

text \<open>The same collaborators with a language model that answers.\<close>

definition answering_env :: env where
  "answering_env =
     demo_env\<lparr>qa_invoke :=
       (\<lambda>q. Inr \<lparr>result_key = Some ''Paris.'', source_documents_key = Some [paris]\<rparr>)\<rparr>"

text \<open>A constructed system holding one chunk, and one holding none, each with the world of
  the process that built it: the directory and the process's client hold the same chunks.\<close>

definition one_chunk_system :: rag_system where
  "one_chunk_system =
     \<lparr>vectorstore = Some (Chroma [paris]), qa_chain = Some RetrievalQA, documents = [paris]\<rparr>"

definition empty_system :: rag_system where
  "empty_system = \<lparr>vectorstore = Some (Chroma []), qa_chain = Some RetrievalQA, documents = []\<rparr>"

definition one_chunk_world :: world where
  "one_chunk_world =
     \<lparr>persist_dir = Some [paris], client_cache = Some [paris], rmtree_outcomes = [],
      chroma_outcomes = [], ui = [], invoked = []\<rparr>"

definition empty_world :: world where
  "empty_world =
     \<lparr>persist_dir = Some [], client_cache = Some [], rmtree_outcomes = [],
      chroma_outcomes = [], ui = [], invoked = []\<rparr>"

definition notes_txt :: uploaded_file where
  "notes_txt = \<lparr>name = ''notes.txt'', getvalue = ''Paris is the capital of France.''\<rparr>"

text \<open>
  A process that has just started and has opened no store: nothing on disk, or the index
  that an earlier run of the program left there.
\<close>

definition new_process_world :: world where
  "new_process_world =
     \<lparr>persist_dir = None, client_cache = None, rmtree_outcomes = [], chroma_outcomes = [],
      ui = [], invoked = []\<rparr>"

definition restarted_world :: world where
  "restarted_world = new_process_world\<lparr>persist_dir := Some [paris]\<rparr>"

text \<open>
  The world that a first session leaves behind in a process: the program is constructed
  in a new process and ingests \<open>notes.txt\<close>.
\<close>

definition first_session_world :: world where
  "first_session_world =
     snd (snd (process_documents demo_env [notes_txt] empty_system
                 (snd (RAGSystem demo_env new_process_world))))"

text \<open>A world whose persist directory stays locked: every \<open>rmtree\<close> is refused.\<close>

definition access_denied :: py_exn where
  "access_denied = Exn PermissionError ''[WinError 32] The process cannot access the file''"

definition locked_world :: world where
  "locked_world =
     one_chunk_world\<lparr>rmtree_outcomes := [Some access_denied, Some access_denied, Some access_denied]\<rparr>"

definition scan_pdf :: uploaded_file where
  "scan_pdf = \<lparr>name = ''scan.pdf'', getvalue = ''%PDF''\<rparr>"

definition idle_session :: session_state where
  "idle_session =
     \<lparr>messages = [], session_rag_system = Some one_chunk_system, voice_handler = False,
      voice_enabled = False\<rparr>"

section \<open>Evaluation of the string operations on the inputs used below\<close>

lemma lower_xyz: "lower ''xyz'' = ''xyz''"
  by code_simp

lemma lower_doc: "lower ''doc'' = ''doc''"
  by code_simp

lemma lower_pdf: "lower ''pdf'' = ''pdf''"
  by code_simp

lemma lower_txt: "lower ''txt'' = ''txt''"
  by code_simp

lemma extension_notes_txt: "last (py_split CHR ''.'' ''notes.txt'') = ''txt''"
  by simp

lemma extension_scan_pdf: "last (py_split CHR ''.'' ''scan.pdf'') = ''pdf''"
  by simp

section \<open>White space\<close>

text \<open>
  \<open>s.strip()\<close> is empty exactly when every character of \<open>s\<close> is white space
  (in particular when \<open>s\<close> is empty).
\<close>

lemma chars_of_nonempty: "[] \<notin> set (chars_of s)"
  by (induction s rule: chars_of.induct) auto

lemma dropWhile_twice_Nil: "dropWhile P (rev (dropWhile P xs)) = [] \<longleftrightarrow> list_all P xs"
proof
  assume a: "dropWhile P (rev (dropWhile P xs)) = []"
  show "list_all P xs"
  proof (cases "dropWhile P xs")
    case Nil
    then show ?thesis by (simp add: dropWhile_eq_Nil_conv list_all_iff)
  next
    case (Cons y ys)
    then have "\<not> P y" using hd_dropWhile [of P xs] by simp
    moreover from a Cons have "P y" by (simp add: dropWhile_eq_Nil_conv)
    ultimately show ?thesis by simp
  qed
next
  assume "list_all P xs"
  then have "dropWhile P xs = []" by (simp add: dropWhile_eq_Nil_conv list_all_iff)
  then show "dropWhile P (rev (dropWhile P xs)) = []" by (simp only: rev.simps dropWhile.simps)
qed

lemma concat_rev_Nil: "[] \<notin> set xss \<Longrightarrow> concat (rev xss) = [] \<longleftrightarrow> xss = []"
  by (cases xss) auto

lemma strip_empty_iff: "strip s = [] \<longleftrightarrow> list_all isspace (chars_of s)"
proof -
  have "[] \<notin> set (dropWhile isspace (rev (dropWhile isspace (chars_of s))))"
    using chars_of_nonempty [of s] by (metis set_dropWhileD set_rev)
  then have "strip s = [] \<longleftrightarrow> dropWhile isspace (rev (dropWhile isspace (chars_of s))) = []"
    unfolding strip_def by (rule concat_rev_Nil)
  then show ?thesis by (simp only: dropWhile_twice_Nil)
qed

lemma blank_two_spaces: "list_all isspace (chars_of ''  '')"
  by code_simp

lemma strip_two_spaces: "strip ''  '' = []"
  by code_simp

lemma strip_empty: "strip [] = []"
  by code_simp

section \<open>Loading a document\<close>

text \<open>
  C6 (as amended). For every file type that, lowercased, is none of \<open>pdf\<close>, \<open>txt\<close>,
  \<open>docx\<close> and \<open>doc\<close>, the \<open>try\<close> block of \<open>load_document\<close> raises
  \<open>ValueError\<close> with the text \<open>Unsupported file type: <type>\<close>; the method catches
  it, shows the error, and returns the empty list of documents to its caller. No loader
  is consulted, and nothing is raised to the caller.
\<close>

theorem load_document_unsupported:
  "lower file_type \<notin> {''pdf'', ''txt'', ''docx'', ''doc''} \<Longrightarrow>
   load_document_try e file_path file_type =
     Inl (Exn ValueError (''Unsupported file type: '' @ file_type)) \<and>
   load_document e file_path file_type w =
     (Inr [],
      show_ui Error
        (cross_mark @ '' Error loading document '' @ file_path @
         '': Unsupported file type: '' @ file_type) w)"
  by (simp add: load_document_def load_document_try_def)

theorem load_document_unsupported_witness:
  "lower ''xyz'' \<notin> {''pdf'', ''txt'', ''docx'', ''doc''} \<and>
   load_document demo_env ''/tmp/upload.xyz'' ''xyz'' empty_world =
     (Inr [],
      show_ui Error
        (cross_mark @ '' Error loading document /tmp/upload.xyz: Unsupported file type: xyz'')
        empty_world)"
  using load_document_unsupported [of "''xyz''" demo_env "''/tmp/upload.xyz''" empty_world]
  by (simp add: lower_xyz)

text \<open>
  No unsupported-format error reaches the caller. A file of
  type \<open>xyz\<close> gives the caller the empty list instead, and a file of type \<open>doc\<close>,
  which is none of \<open>pdf\<close>, \<open>txt\<close> and \<open>docx\<close>, is loaded.
\<close>

theorem load_document_counterexample:
  "fst (load_document demo_env ''/tmp/upload.xyz'' ''xyz'' empty_world) = Inr [] \<and>
   fst (load_document demo_env ''/tmp/upload.doc'' ''doc'' empty_world) = Inr [paris, paris]"
  by (simp add: load_document_def load_document_try_def lower_xyz lower_doc demo_env_def)

text \<open>
  C9. \<open>load_document\<close> never raises: for every path and file type it returns a list of
  documents. Whenever its \<open>try\<close> block raises (an unsupported type, a loader that
  fails), the list is empty. In \<open>process_documents\<close>, a file whose loading fails in this
  way leaves the count of processed files and the object as they were.
\<close>

theorem load_document_total:
  "(\<exists>docs w'. load_document e file_path file_type w = (Inr docs, w')) \<and>
   (\<forall>x. load_document_try e file_path file_type = Inl x \<longrightarrow>
          fst (load_document e file_path file_type w) = Inr []) \<and>
   (\<forall>temp_file_path x.
      tempfile_write e f = Inr temp_file_path \<longrightarrow>
      load_document_try e temp_file_path (lower (last (py_split CHR ''.'' (name f)))) = Inl x \<longrightarrow>
      fst (process_file e f processed_count s w) = processed_count \<and>
      fst (snd (process_file e f processed_count s w)) = s)"
  by (auto simp: load_document_def process_file_def process_file_try_def Let_def
           split: sum.splits option.splits prod.splits)

theorem load_document_total_witness:
  "tempfile_write demo_env scan_pdf = Inr ''/tmp/upload.pdf'' \<and>
   load_document_try demo_env ''/tmp/upload.pdf'' ''pdf'' = Inl (Exn ValueError ''not a PDF file'') \<and>
   fst (load_document demo_env ''/tmp/upload.pdf'' ''pdf'' empty_world) = Inr [] \<and>
   fst (process_file demo_env scan_pdf 0 empty_system empty_world) = 0 \<and>
   fst (snd (process_file demo_env scan_pdf 0 empty_system empty_world)) = empty_system"
proof -
  have t: "tempfile_write demo_env scan_pdf = Inr ''/tmp/upload.pdf''"
    by (simp add: demo_env_def scan_pdf_def)
  have l: "load_document_try demo_env ''/tmp/upload.pdf'' (lower (last (py_split CHR ''.'' (name scan_pdf))))
             = Inl (Exn ValueError ''not a PDF file'')"
    by (simp add: load_document_try_def scan_pdf_def lower_pdf demo_env_def)
  from l have l': "load_document_try demo_env ''/tmp/upload.pdf'' ''pdf'' = Inl (Exn ValueError ''not a PDF file'')"
    by (simp add: scan_pdf_def lower_pdf)
  from load_document_total [of demo_env "''/tmp/upload.pdf''" "''pdf''" empty_world scan_pdf 0 empty_system]
  show ?thesis using t l l' by simp
qed

section \<open>Querying\<close>

text \<open>
  C1. \<open>query_knowledge_base\<close> never raises: for every question, object and behaviour
  of the collaborators it returns a result. Whenever its \<open>try\<close> block raises an
  exception, the answer is \<open>Error processing your question:\<close> followed by the text of
  the exception, and no chunk is cited. In particular this is the result when the chain
  (embedding the question, retrieving, generating) raises on a non-empty index.
\<close>

theorem query_never_raises:
  "(\<exists>r w'. query_knowledge_base e question s w = (Inr r, w')) \<and>
   (\<forall>x. fst (query_knowledge_base_try e question s w) = Inl x \<longrightarrow>
        fst (query_knowledge_base e question s w) =
          Inr \<lparr>answer = cross_mark @ '' Error processing your question: '' @ str_exn x,
                source_documents = []\<rparr>) \<and>
   (\<forall>vs c x. qa_chain s \<noteq> None \<longrightarrow> vectorstore s = Some vs \<longrightarrow> count e vs = Inr c \<longrightarrow> 0 < c \<longrightarrow>
        qa_invoke e question = Inl x \<longrightarrow>
        fst (query_knowledge_base e question s w) =
          Inr \<lparr>answer = cross_mark @ '' Error processing your question: '' @ str_exn x,
                source_documents = []\<rparr>)"
  by (auto simp: query_knowledge_base_def query_knowledge_base_try_def Let_def
           split: sum.splits option.splits prod.splits)

theorem query_never_raises_witness:
  "fst (query_knowledge_base_try demo_env ''What is the capital of France?'' one_chunk_system
          one_chunk_world) = Inl (Exn RuntimeError ''quota exceeded'') \<and>
   qa_chain one_chunk_system \<noteq> None \<and> vectorstore one_chunk_system = Some (Chroma [paris]) \<and>
   count demo_env (Chroma [paris]) = Inr 1 \<and>
   qa_invoke demo_env ''What is the capital of France?'' = Inl (Exn RuntimeError ''quota exceeded'') \<and>
   fst (query_knowledge_base demo_env ''What is the capital of France?'' one_chunk_system
          one_chunk_world) =
     Inr \<lparr>answer = cross_mark @ '' Error processing your question: quota exceeded'',
           source_documents = []\<rparr>"
proof -
  have a: "qa_chain one_chunk_system \<noteq> None" "vectorstore one_chunk_system = Some (Chroma [paris])"
    by (simp_all add: one_chunk_system_def)
  have c: "count demo_env (Chroma [paris]) = Inr 1"
    by (simp add: count_def demo_env_def)
  have q: "qa_invoke demo_env ''What is the capital of France?'' = Inl (Exn RuntimeError ''quota exceeded'')"
    by (simp add: demo_env_def)
  have t: "fst (query_knowledge_base_try demo_env ''What is the capital of France?'' one_chunk_system
          one_chunk_world) = Inl (Exn RuntimeError ''quota exceeded'')"
    using a c q by (simp add: query_knowledge_base_try_def Let_def)
  from query_never_raises [of demo_env "''What is the capital of France?''" one_chunk_system one_chunk_world]
  show ?thesis using a c q t by simp
qed

text \<open>
  C2. On a constructed system (one with a chain) whose store reports a count of zero,
  every question is answered with the fixed \<open>No documents in knowledge base\<close> text
  and no cited chunk; the world is left as it was, so the chain, and with it the embedding
  model and the language model, is not invoked.
\<close>

theorem query_no_documents:
  "qa_chain s \<noteq> None \<Longrightarrow> vectorstore s = Some vs \<Longrightarrow> count e vs = Inr 0 \<Longrightarrow>
   query_knowledge_base e question s w =
     (Inr \<lparr>answer = no_documents, source_documents = []\<rparr>, w) \<and>
   invoked (snd (query_knowledge_base e question s w)) = invoked w"
  by (auto simp: query_knowledge_base_def query_knowledge_base_try_def)

theorem query_no_documents_witness:
  "qa_chain empty_system \<noteq> None \<and> vectorstore empty_system = Some (Chroma []) \<and>
   count answering_env (Chroma []) = Inr 0 \<and>
   query_knowledge_base answering_env ''What is the capital of France?'' empty_system empty_world =
     (Inr \<lparr>answer = no_documents, source_documents = []\<rparr>, empty_world)"
proof -
  have a: "qa_chain empty_system \<noteq> None" "vectorstore empty_system = Some (Chroma [])"
    by (simp_all add: empty_system_def)
  have c: "count answering_env (Chroma []) = Inr 0"
    by (simp add: count_def answering_env_def demo_env_def)
  from query_no_documents [OF a c, of "''What is the capital of France?''" empty_world]
  show ?thesis using a c by simp
qed

text \<open>
  C3 (as amended). The check for an empty question is made by \<open>handle_query\<close>, before
  the system is reached: for every question that is empty or consists of white space only,
  \<open>handle_query\<close> shows the warning \<open>Please enter a question.\<close> and returns; the
  chat messages and the session are unchanged, \<open>query_knowledge_base\<close> is not called,
  and so neither the index nor the chain is touched.
\<close>

theorem handle_query_blank:
  "list_all isspace (chars_of question) \<Longrightarrow>
   handle_query e question tts_method ss w =
     (ss, show_ui Warning (warning_sign @ '' Please enter a question.'') w) \<and>
   invoked (snd (handle_query e question tts_method ss w)) = invoked w"
  by (simp add: handle_query_def strip_empty_iff show_ui_def)

theorem handle_query_blank_witness:
  "list_all isspace (chars_of ''  '') \<and>
   handle_query answering_env ''  '' ''Offline'' idle_session one_chunk_world =
     (idle_session, show_ui Warning (warning_sign @ '' Please enter a question.'') one_chunk_world)"
proof -
  from handle_query_blank [OF blank_two_spaces, of answering_env "''Offline''" idle_session one_chunk_world]
  have "handle_query answering_env ''  '' ''Offline'' idle_session one_chunk_world =
     (idle_session, show_ui Warning (warning_sign @ '' Please enter a question.'') one_chunk_world)"
    by (rule conjunct1)
  with blank_two_spaces show ?thesis by (rule conjI)
qed

text \<open>
  \<open>query_knowledge_base\<close> itself does not validate the question: on a non-empty index
  a question of two spaces, and the empty question, are handed to the chain, and the
  chain's reply is the answer.
\<close>

theorem query_blank_counterexample:
  "strip ''  '' = [] \<and>
   query_knowledge_base answering_env ''  '' one_chunk_system one_chunk_world =
     (Inr \<lparr>answer = ''Paris.'', source_documents = [paris]\<rparr>,
      one_chunk_world\<lparr>invoked := [''  '']\<rparr>) \<and>
   strip [] = [] \<and>
   query_knowledge_base answering_env [] one_chunk_system one_chunk_world =
     (Inr \<lparr>answer = ''Paris.'', source_documents = [paris]\<rparr>,
      one_chunk_world\<lparr>invoked := [[]]\<rparr>)"
  by (simp add: strip_two_spaces strip_empty query_knowledge_base_def query_knowledge_base_try_def
        answering_env_def demo_env_def one_chunk_system_def one_chunk_world_def count_def Let_def)

section \<open>Construction and the persisted index\<close>

text \<open>
  \<open>setup_fresh_vectorstore\<close> either raises and leaves the object as it was, or returns
  with a store served by the process's client: the chunks that client holds, and none
  when the process had no client yet. The directory is deleted first in either case.
\<close>

lemma rmtree_client_cache:
  "rmtree w = (r, w') \<Longrightarrow> client_cache w' = client_cache w \<and> invoked w' = invoked w"
  by (auto simp: rmtree_def split: list.splits option.splits)

lemma rmtree_success:
  "rmtree w = (Inr u, w') \<Longrightarrow> persist_dir w' = None"
  by (auto simp: rmtree_def split: list.splits option.splits)

lemma chroma_init_success:
  "chroma_init w = (Inr vs, w') \<Longrightarrow>
   vs = Chroma (case client_cache w of None \<Rightarrow> stored w | Some cs \<Rightarrow> cs) \<and>
   client_cache w' = Some (collection vs) \<and> invoked w' = invoked w \<and>
   rmtree_outcomes w' = rmtree_outcomes w \<and>
   persist_dir w' = (case client_cache w of None \<Rightarrow> Some (stored w) | Some cs \<Rightarrow> persist_dir w)"
  by (auto simp: chroma_init_def chroma_open_def stored_def split: list.splits option.splits)

lemma setup_fresh_vectorstore_try_success:
  "setup_fresh_vectorstore_try s w = (Inr u, s', w') \<Longrightarrow>
   s' = s\<lparr>vectorstore := Some (Chroma (client_chunks w))\<rparr> \<and> invoked w' = invoked w \<and>
   client_cache w' = Some (client_chunks w) \<and>
   persist_dir w' = (if client_cache w = None then Some [] else None)"
proof -
  assume a: "setup_fresh_vectorstore_try s w = (Inr u, s', w')"
  obtain r1 w1 where 1: "(if persist_dir w \<noteq> None then rmtree w else (Inr (), w)) = (r1, w1)"
    by (cases "if persist_dir w \<noteq> None then rmtree w else (Inr (), w)") auto
  from 1 have c1: "client_cache w1 = client_cache w" "invoked w1 = invoked w"
    using rmtree_client_cache [of w r1 w1] by (auto split: if_splits)
  from a 1 obtain u1 where r1: "r1 = Inr u1"
    by (cases r1) (auto simp: setup_fresh_vectorstore_try_def)
  from 1 r1 have p1: "persist_dir w1 = None"
    using rmtree_success [of w u1 w1] by (auto split: if_splits)
  from a 1 r1 obtain vs w2 where
    2: "chroma_init w1 = (Inr vs, w2)" and
    3: "s' = s\<lparr>vectorstore := Some vs\<rparr>" and
    4: "w' = show_ui Info (new_button @ '' Created fresh knowledge base'') w2"
    by (auto simp: setup_fresh_vectorstore_try_def split: prod.splits sum.splits)
  from chroma_init_success [OF 2] c1 p1 3 4 show ?thesis
    by (cases "client_cache w") (simp_all add: client_chunks_def stored_def show_ui_def)
qed

lemma setup_fresh_vectorstore_success:
  "setup_fresh_vectorstore s w = (Inr u, s', w') \<Longrightarrow>
   s' = s\<lparr>vectorstore := Some (Chroma (client_chunks w))\<rparr> \<and> invoked w' = invoked w \<and>
   client_cache w' = Some (client_chunks w) \<and>
   persist_dir w' = (if client_cache w = None then Some [] else None)"
proof -
  assume "setup_fresh_vectorstore s w = (Inr u, s', w')"
  then have "setup_fresh_vectorstore_try s w = (Inr u, s', w')"
    by (auto simp: setup_fresh_vectorstore_def split: prod.splits sum.splits)
  then show ?thesis by (rule setup_fresh_vectorstore_try_success)
qed

lemma setup_fresh_vectorstore_failure:
  "setup_fresh_vectorstore s w = (Inl x, s', w') \<Longrightarrow> s' = s"
  by (auto simp: setup_fresh_vectorstore_def setup_fresh_vectorstore_try_def
        split: if_splits prod.splits sum.splits)

lemma setup_fresh_vectorstore_cases:
  "(\<exists>x w'. setup_fresh_vectorstore s w = (Inl x, s, w')) \<or>
   (\<exists>w'. setup_fresh_vectorstore s w =
           (Inr (), s\<lparr>vectorstore := Some (Chroma (client_chunks w))\<rparr>, w'))"
proof (cases "setup_fresh_vectorstore s w")
  case (fields r s' w')
  show ?thesis
  proof (cases r)
    case (Inl x)
    with fields setup_fresh_vectorstore_failure show ?thesis by blast
  next
    case (Inr u)
    with fields setup_fresh_vectorstore_success [of s w u s' w'] show ?thesis by simp
  qed
qed

lemma setup_fresh_vectorstore_rmtree:
  "setup_fresh_vectorstore s w = (Inr u, s', w') \<Longrightarrow>
   rmtree_outcomes w' =
     (if persist_dir w = None then rmtree_outcomes w else drop 1 (rmtree_outcomes w))"
proof -
  assume "setup_fresh_vectorstore s w = (Inr u, s', w')"
  then have a: "setup_fresh_vectorstore_try s w = (Inr u, s', w')"
    by (auto simp: setup_fresh_vectorstore_def split: prod.splits sum.splits)
  obtain r1 w1 where 1: "(if persist_dir w \<noteq> None then rmtree w else (Inr (), w)) = (r1, w1)"
    by (cases "if persist_dir w \<noteq> None then rmtree w else (Inr (), w)") auto
  from a 1 obtain u1 where r1: "r1 = Inr u1"
    by (cases r1) (auto simp: setup_fresh_vectorstore_try_def)
  from 1 r1 have m: "rmtree_outcomes w1 =
      (if persist_dir w = None then rmtree_outcomes w else drop 1 (rmtree_outcomes w))"
    by (auto simp: rmtree_def split: if_splits list.splits option.splits)
  from a 1 r1 obtain vs w2 where
    2: "chroma_init w1 = (Inr vs, w2)" and
    4: "w' = show_ui Info (new_button @ '' Created fresh knowledge base'') w2"
    by (auto simp: setup_fresh_vectorstore_try_def split: prod.splits sum.splits)
  from chroma_init_success [OF 2] m 4 show ?thesis
    by (simp add: show_ui_def)
qed

lemma setup_embeddings_success:
  "setup_embeddings e w = (Inr u, w') \<Longrightarrow>
   persist_dir w' = persist_dir w \<and> rmtree_outcomes w' = rmtree_outcomes w \<and>
   client_cache w' = client_cache w"
  by (auto simp: setup_embeddings_def show_ui_def split: option.splits)

lemma setup_qa_chain_success:
  "setup_qa_chain e s w = (Inr u, s', w') \<Longrightarrow>
   s' = s\<lparr>qa_chain := Some RetrievalQA\<rparr> \<and> persist_dir w' = persist_dir w \<and>
   rmtree_outcomes w' = rmtree_outcomes w"
  by (auto simp: setup_qa_chain_def show_ui_def split: option.splits sum.splits)

text \<open>
  Whenever construction succeeds, the new object has no documents and a chain, its store
  holds the chunks of the process's client, and, when the directory existed, one
  \<open>rmtree\<close> of it was carried out. (When the deletion or any other step fails,
  construction raises and there is no object.)
\<close>

lemma construction_store:
  "RAGSystem e w = (Inr s, w') \<Longrightarrow>
   vectorstore s = Some (Chroma (client_chunks w)) \<and> documents s = [] \<and>
   qa_chain s = Some RetrievalQA \<and>
   persist_dir w' = (if client_cache w = None then Some [] else None) \<and>
   rmtree_outcomes w' =
     (if persist_dir w = None then rmtree_outcomes w else drop 1 (rmtree_outcomes w))"
proof -
  assume a: "RAGSystem e w = (Inr s, w')"
  define s0 where "s0 = \<lparr>vectorstore = None, qa_chain = None, documents = []\<rparr>"
  from a obtain w1 where 1: "setup_embeddings e w = (Inr (), w1)"
    by (auto simp: RAGSystem_def Let_def split: prod.splits sum.splits)
  from a 1 obtain s2 w2 where 2: "setup_fresh_vectorstore s0 w1 = (Inr (), s2, w2)"
    by (auto simp: RAGSystem_def Let_def s0_def split: prod.splits sum.splits)
  from a 1 2 have 3: "setup_qa_chain e s2 w2 = (Inr (), s, w')"
    by (auto simp: RAGSystem_def Let_def s0_def split: prod.splits sum.splits)
  note e1 = setup_embeddings_success [OF 1]
  note e2 = setup_fresh_vectorstore_success [OF 2] setup_fresh_vectorstore_rmtree [OF 2]
  note e3 = setup_qa_chain_success [OF 3]
  from e1 e2 e3 show ?thesis by (simp add: s0_def client_chunks_def)
qed

text \<open>
  In a process that has opened no store yet, construction discards whatever the
  directory held: the store is empty and the directory holds an empty collection.
\<close>

lemma construction_in_new_process:
  "client_cache w = None \<Longrightarrow> RAGSystem e w = (Inr s, w') \<Longrightarrow>
   vectorstore s = Some (Chroma []) \<and> documents s = [] \<and> persist_dir w' = Some []"
  using construction_store [of e w s w'] by (simp add: client_chunks_def)

lemma construction_after_restart:
  "RAGSystem demo_env restarted_world =
     (Inr empty_system,
      \<lparr>persist_dir = Some [], client_cache = Some [], rmtree_outcomes = [], chroma_outcomes = [],
       ui = [(Success, check_mark @ '' Embeddings model loaded successfully''),
             (Info, new_button @ '' Created fresh knowledge base''),
             (Success, check_mark @ '' QA chain initialized successfully with Google Gemini'')],
       invoked = []\<rparr>) \<and>
   persist_dir restarted_world = Some [paris]"
  by (simp add: RAGSystem_def setup_embeddings_def setup_qa_chain_def
        setup_fresh_vectorstore_def setup_fresh_vectorstore_try_def rmtree_def
        chroma_init_def chroma_open_def stored_def show_ui_def Let_def demo_env_def
        restarted_world_def new_process_world_def empty_system_def)

text \<open>The first session of a process: construction, then one file.\<close>

lemma first_construction:
  "RAGSystem demo_env new_process_world =
     (Inr empty_system,
      \<lparr>persist_dir = Some [], client_cache = Some [], rmtree_outcomes = [], chroma_outcomes = [],
       ui = [(Success, check_mark @ '' Embeddings model loaded successfully''),
             (Info, new_button @ '' Created fresh knowledge base''),
             (Success, check_mark @ '' QA chain initialized successfully with Google Gemini'')],
       invoked = []\<rparr>)"
  by (simp add: RAGSystem_def setup_embeddings_def setup_qa_chain_def
        setup_fresh_vectorstore_def setup_fresh_vectorstore_try_def
        chroma_init_def chroma_open_def stored_def show_ui_def Let_def demo_env_def
        new_process_world_def empty_system_def)

lemma first_ingest:
  "fst (process_documents demo_env [notes_txt] empty_system
          (snd (RAGSystem demo_env new_process_world))) = Inr 1 \<and>
   persist_dir first_session_world = Some (add_metadata ''notes.txt'' ''txt'' [paris]) \<and>
   client_cache first_session_world = Some (add_metadata ''notes.txt'' ''txt'' [paris]) \<and>
   rmtree_outcomes first_session_world = [] \<and> chroma_outcomes first_session_world = []"
  unfolding first_session_world_def first_construction snd_conv
  by (simp add: process_documents_def
        process_file_def process_file_try_def index_documents_def
        vectorstore_add_documents_def load_document_def load_document_try_def Let_def
        show_ui_def demo_env_def notes_txt_def empty_system_def lower_txt)

text \<open>
  C7. Construction does not always start from an empty knowledge base. In a process in
  which a first session has been constructed and has ingested \<open>notes.txt\<close>, so that
  the directory and the process's Chroma client hold its chunk, a second construction
  succeeds and deletes the directory, but its store is served by the client the process
  still holds: it has the chunk of the first session, and the statistics count one
  document. The comment \<open>Always start with fresh vectorstore\<close> and the docstring of
  \<open>setup_fresh_vectorstore\<close> say otherwise.
\<close>

theorem second_construction_keeps_chunks:
  "fst (RAGSystem demo_env new_process_world) = Inr empty_system \<and>
   fst (process_documents demo_env [notes_txt] empty_system
          (snd (RAGSystem demo_env new_process_world))) = Inr 1 \<and>
   persist_dir first_session_world = Some (add_metadata ''notes.txt'' ''txt'' [paris]) \<and>
   fst (RAGSystem demo_env first_session_world) =
     Inr \<lparr>vectorstore = Some (Chroma (add_metadata ''notes.txt'' ''txt'' [paris])),
           qa_chain = Some RetrievalQA, documents = []\<rparr> \<and>
   persist_dir (snd (RAGSystem demo_env first_session_world)) = None \<and>
   fst (get_knowledge_base_stats demo_env
          \<lparr>vectorstore = Some (Chroma (add_metadata ''notes.txt'' ''txt'' [paris])),
           qa_chain = Some RetrievalQA, documents = []\<rparr>
          (snd (RAGSystem demo_env first_session_world))) =
     Inr \<lparr>total_documents = 1, sources = {}\<rparr>"
proof -
  obtain w where w: "first_session_world = w" by simp
  have f: "persist_dir w = Some (add_metadata ''notes.txt'' ''txt'' [paris])"
    "client_cache w = Some (add_metadata ''notes.txt'' ''txt'' [paris])"
    "rmtree_outcomes w = []" "chroma_outcomes w = []"
    using first_ingest by (simp_all add: w)
  have 2: "fst (RAGSystem demo_env w) =
     Inr \<lparr>vectorstore = Some (Chroma (add_metadata ''notes.txt'' ''txt'' [paris])),
           qa_chain = Some RetrievalQA, documents = []\<rparr> \<and>
     persist_dir (snd (RAGSystem demo_env w)) = None"
    using f
    by (simp add: RAGSystem_def setup_embeddings_def setup_qa_chain_def
        setup_fresh_vectorstore_def setup_fresh_vectorstore_try_def rmtree_def
        chroma_init_def chroma_open_def show_ui_def Let_def demo_env_def)
  have 3: "fst (get_knowledge_base_stats demo_env
          \<lparr>vectorstore = Some (Chroma (add_metadata ''notes.txt'' ''txt'' [paris])),
           qa_chain = Some RetrievalQA, documents = []\<rparr>
          (snd (RAGSystem demo_env w))) = Inr \<lparr>total_documents = 1, sources = {}\<rparr>"
    by (simp add: get_knowledge_base_stats_def count_def demo_env_def add_metadata_def
        List.map_filter_def)
  from first_construction first_ingest 2 3 show ?thesis
    by (simp add: w)
qed

section \<open>Clearing the knowledge base\<close>

text \<open>Nothing on the way through \<open>clear_knowledge_base\<close> adds a document or touches the chain.\<close>

lemma close_vectorstore_documents:
  "close_vectorstore e s w = (s', w') \<Longrightarrow> documents s' = documents s \<and> qa_chain s' = qa_chain s"
  by (auto simp: close_vectorstore_def split: option.splits)

lemma setup_fresh_vectorstore_documents:
  "setup_fresh_vectorstore s w = (r, s', w') \<Longrightarrow> documents s' = documents s \<and> qa_chain s' = qa_chain s"
  using setup_fresh_vectorstore_cases [of s w] by auto

lemma clear_knowledge_base_try_documents:
  "clear_knowledge_base_try e s w = (r, s', w') \<Longrightarrow> documents s' = [] \<and> qa_chain s' = qa_chain s"
proof -
  assume a: "clear_knowledge_base_try e s w = (r, s', w')"
  obtain s1 w1 where 1: "close_vectorstore e (s\<lparr>documents := []\<rparr>) w = (s1, w1)"
    by (cases "close_vectorstore e (s\<lparr>documents := []\<rparr>) w") auto
  from close_vectorstore_documents [OF 1] have d1: "documents s1 = []" "qa_chain s1 = qa_chain s" by simp_all
  obtain r3 s3 w3 where 3: "setup_fresh_vectorstore s1 (snd (remove_directory w1)) = (r3, s3, w3)"
    by (cases "setup_fresh_vectorstore s1 (snd (remove_directory w1))") auto
  from setup_fresh_vectorstore_documents [OF 3] d1 have d3: "documents s3 = []" "qa_chain s3 = qa_chain s" by simp_all
  from a 1 3 d1 d3 show ?thesis
    by (auto simp: clear_knowledge_base_try_def split: prod.splits sum.splits)
qed

lemma clear_knowledge_base_documents:
  "\<exists>b s' w'. clear_knowledge_base e s w = (Inr b, s', w') \<and> documents s' = [] \<and> qa_chain s' = qa_chain s"
proof -
  obtain r s1 w1 where 1: "clear_knowledge_base_try e s w = (r, s1, w1)"
    by (cases "clear_knowledge_base_try e s w") auto
  note d1 = clear_knowledge_base_try_documents [OF 1]
  show ?thesis
  proof (cases r)
    case (Inr b)
    with 1 d1 show ?thesis by (simp add: clear_knowledge_base_def)
  next
    case (Inl x)
    obtain r2 s2 w2 where 2: "setup_fresh_vectorstore s1
        (show_ui Error (cross_mark @ '' Error clearing knowledge base: '' @ str_exn x) w1) = (r2, s2, w2)"
      by (cases "setup_fresh_vectorstore s1
        (show_ui Error (cross_mark @ '' Error clearing knowledge base: '' @ str_exn x) w1)") auto
    from setup_fresh_vectorstore_documents [OF 2] d1 have "documents s2 = []" "qa_chain s2 = qa_chain s" by simp_all
    with 1 2 Inl show ?thesis by (cases r2) (auto simp: clear_knowledge_base_def)
  qed
qed

lemma stats_no_documents:
  "documents s = [] \<Longrightarrow> \<exists>st w'. get_knowledge_base_stats e s w = (Inr st, w') \<and> sources st = {}"
  by (auto simp: get_knowledge_base_stats_def List.map_filter_def split: option.splits sum.splits)

text \<open>
  C10. \<open>clear_knowledge_base\<close> never raises, and after it the list of documents is
  empty, whatever the deletion of the directory and the rebuilding of the store did; so
  \<open>get_knowledge_base_stats\<close> then returns an empty collection of sources.
\<close>

theorem clear_empties_sources:
  "\<exists>b s' w'. clear_knowledge_base e s w = (Inr b, s', w') \<and> documents s' = [] \<and>
     (\<exists>st w''. get_knowledge_base_stats e s' w' = (Inr st, w'') \<and> sources st = {})"
  using clear_knowledge_base_documents [of e s w] stats_no_documents by blast

theorem clear_empties_sources_witness:
  "documents (fst (snd (clear_knowledge_base demo_env one_chunk_system locked_world))) = [] \<and>
   (\<exists>st w''.
      get_knowledge_base_stats demo_env
        (fst (snd (clear_knowledge_base demo_env one_chunk_system locked_world)))
        (snd (snd (clear_knowledge_base demo_env one_chunk_system locked_world))) = (Inr st, w'') \<and>
      sources st = {})"
proof -
  from clear_empties_sources [of demo_env one_chunk_system locked_world]
  obtain b s' w' where
    c: "clear_knowledge_base demo_env one_chunk_system locked_world = (Inr b, s', w')" and
    d: "documents s' = []" and
    g: "\<exists>st w''. get_knowledge_base_stats demo_env s' w' = (Inr st, w'') \<and> sources st = {}"
    by blast
  from c d g show ?thesis by simp
qed

text \<open>
  When \<open>clear_knowledge_base\<close> returns \<open>True\<close>, the new store is the one the
  process's client serves: empty when the old store was closed by a \<open>reset()\<close> that the
  client accepted, or when the process held no client, and otherwise the chunks the
  client held. It returns \<open>True\<close> whenever the storage does what it is asked.
\<close>

lemma close_vectorstore_client:
  "close_vectorstore e s w = (s1, w1) \<Longrightarrow>
   client_chunks w1 =
     (if vectorstore s \<noteq> None \<and> client_reset e = None then [] else client_chunks w)"
  by (auto simp: close_vectorstore_def client_chunks_def split: option.splits)

lemma remove_directory_client:
  "remove_directory w = (r, w') \<Longrightarrow> client_cache w' = client_cache w"
  by (auto simp: remove_directory_def show_ui_def
        split: if_splits prod.splits sum.splits dest: rmtree_client_cache)

lemma clear_knowledge_base_True:
  "clear_knowledge_base e s w = (Inr True, s', w') \<Longrightarrow>
   vectorstore s' =
     Some (Chroma (if vectorstore s \<noteq> None \<and> client_reset e = None then []
                   else client_chunks w))"
proof -
  assume a: "clear_knowledge_base e s w = (Inr True, s', w')"
  then have t: "clear_knowledge_base_try e s w = (Inr True, s', w')"
    by (auto simp: clear_knowledge_base_def split: prod.splits sum.splits)
  obtain s1 w1 where 1: "close_vectorstore e (s\<lparr>documents := []\<rparr>) w = (s1, w1)"
    by (cases "close_vectorstore e (s\<lparr>documents := []\<rparr>) w") auto
  from t 1 obtain u2 w2 u w3 where
    2: "remove_directory w1 = (Inr u2, w2)" and
    3: "setup_fresh_vectorstore s1 w2 = (Inr u, s', w3)"
    by (auto simp: clear_knowledge_base_try_def split: prod.splits sum.splits)
  from remove_directory_client [OF 2] have "client_chunks w2 = client_chunks w1"
    by (simp add: client_chunks_def)
  with close_vectorstore_client [OF 1] setup_fresh_vectorstore_success [OF 3]
  show ?thesis by simp
qed

lemma clear_knowledge_base_storage_works:
  "rmtree_outcomes w = [] \<Longrightarrow> chroma_outcomes w = [] \<Longrightarrow>
   \<exists>s' w'. clear_knowledge_base e s w = (Inr True, s', w') \<and> documents s' = []"
  by (auto simp: clear_knowledge_base_def clear_knowledge_base_try_def close_vectorstore_def
        remove_directory_def setup_fresh_vectorstore_def setup_fresh_vectorstore_try_def
        rmtree_def chroma_init_def chroma_open_def show_ui_def
        split: option.splits)

text \<open>
  So with a client that refuses \<open>reset()\<close> and a directory that can be deleted, the
  method deletes the directory, returns \<open>True\<close> and reports success, while the store it
  has built is served by the client the process still holds, with the old chunk.
\<close>

lemma clear_keeps_client_chunks:
  "fst (clear_knowledge_base demo_env one_chunk_system one_chunk_world) = Inr True \<and>
   fst (snd (clear_knowledge_base demo_env one_chunk_system one_chunk_world)) =
     one_chunk_system\<lparr>documents := []\<rparr> \<and>
   persist_dir (snd (snd (clear_knowledge_base demo_env one_chunk_system one_chunk_world))) = None"
  by (simp add: clear_knowledge_base_def clear_knowledge_base_try_def close_vectorstore_def
        remove_directory_def setup_fresh_vectorstore_def setup_fresh_vectorstore_try_def
        rmtree_def chroma_init_def chroma_open_def show_ui_def demo_env_def
        one_chunk_system_def one_chunk_world_def)

text \<open>
  C5. The fallback does not do what the claim says when the directory cannot be deleted.
  With a store of one chunk, a client that refuses \<open>reset()\<close> and a directory on which
  every \<open>rmtree\<close> raises \<open>PermissionError\<close>: the first refusal is caught with a
  warning, but \<open>setup_fresh_vectorstore\<close> starts by deleting the directory again, so it
  raises; the handler of \<open>clear_knowledge_base\<close> reports an error and calls it once
  more, with the same outcome. The method returns \<open>False\<close>, three messages are shown at
  error level, the store still holds the chunk, and the statistics count one document.
\<close>

theorem clear_locked_directory:
  "clear_knowledge_base demo_env one_chunk_system locked_world =
     (Inr False, one_chunk_system\<lparr>documents := []\<rparr>,
      one_chunk_world\<lparr>ui :=
        [(Warning, warning_sign @ '' Could not delete old files, creating fresh database''),
         (Error, cross_mark @ '' Error setting up fresh vectorstore: '' @ str_exn access_denied),
         (Error, cross_mark @ '' Error clearing knowledge base: '' @ str_exn access_denied),
         (Error, cross_mark @ '' Error setting up fresh vectorstore: '' @ str_exn access_denied)]\<rparr>) \<and>
   vectorstore (one_chunk_system\<lparr>documents := []\<rparr>) = Some (Chroma [paris]) \<and>
   fst (get_knowledge_base_stats demo_env (one_chunk_system\<lparr>documents := []\<rparr>) one_chunk_world) =
     Inr \<lparr>total_documents = 1, sources = {}\<rparr>"
  by (simp add: clear_knowledge_base_def clear_knowledge_base_try_def close_vectorstore_def
        remove_directory_def setup_fresh_vectorstore_def setup_fresh_vectorstore_try_def
        rmtree_def show_ui_def demo_env_def one_chunk_system_def locked_world_def
        one_chunk_world_def access_denied_def get_knowledge_base_stats_def count_def
        List.map_filter_def)

text \<open>
  With a client that accepts \<open>reset()\<close> the outcome differs only in the store: the field
  is left at \<open>None\<close>, and no empty index is built either.
\<close>

lemma clear_locked_directory_after_reset:
  "fst (clear_knowledge_base (demo_env\<lparr>client_reset := None\<rparr>) one_chunk_system locked_world) =
     Inr False \<and>
   vectorstore (fst (snd (clear_knowledge_base (demo_env\<lparr>client_reset := None\<rparr>)
                            one_chunk_system locked_world))) = None \<and>
   map fst (ui (snd (snd (clear_knowledge_base (demo_env\<lparr>client_reset := None\<rparr>)
                            one_chunk_system locked_world)))) = [Warning, Error, Error, Error]"
  by (simp add: clear_knowledge_base_def clear_knowledge_base_try_def close_vectorstore_def
        remove_directory_def setup_fresh_vectorstore_def setup_fresh_vectorstore_try_def
        rmtree_def show_ui_def demo_env_def one_chunk_system_def locked_world_def
        one_chunk_world_def access_denied_def)

text \<open>
  When the lock is gone by the second attempt, the first \<open>rmtree\<close> is refused with a
  warning, the one inside \<open>setup_fresh_vectorstore\<close> succeeds, and the method returns
  \<open>True\<close>; with a client that accepted \<open>reset()\<close> the new store is empty.
\<close>

lemma clear_lock_released:
  "clear_knowledge_base (demo_env\<lparr>client_reset := None\<rparr>) one_chunk_system
     (one_chunk_world\<lparr>rmtree_outcomes := [Some access_denied, None]\<rparr>) =
     (Inr True, empty_system,
      one_chunk_world\<lparr>persist_dir := None, client_cache := Some [], ui :=
        [(Warning, warning_sign @ '' Could not delete old files, creating fresh database''),
         (Info, new_button @ '' Created fresh knowledge base''),
         (Success, check_mark @ '' Knowledge base cleared successfully!'')]\<rparr>)"
  by (simp add: clear_knowledge_base_def clear_knowledge_base_try_def close_vectorstore_def
        remove_directory_def setup_fresh_vectorstore_def setup_fresh_vectorstore_try_def
        rmtree_def chroma_init_def chroma_open_def show_ui_def demo_env_def
        one_chunk_system_def one_chunk_world_def empty_system_def access_denied_def)

section \<open>Ingesting a batch of files\<close>

text \<open>
  One pass of the loop body either leaves the count and the object as they were, or adds
  one to the count and appends the file's chunks to the store and to the documents; which
  of the two is decided by \<open>pipeline\<close>. Whether the temporary file could be removed
  afterwards plays no part.
\<close>

lemmas process_file_defs =
  process_file_def process_file_try_def index_documents_def vectorstore_add_documents_def
  load_document_def pipeline_def Let_def

lemma process_file_pipeline:
  "\<exists>w'. process_file e f n s w =
     (case pipeline e (vectorstore s \<noteq> None) f of
        None \<Rightarrow> (n, s, w')
      | Some texts \<Rightarrow>
          (n + 1,
           s\<lparr>vectorstore := map_option (\<lambda>vs. Chroma (collection vs @ texts)) (vectorstore s),
             documents := documents s @ texts\<rparr>, w'))"
proof (cases "tempfile_write e f")
  case (Inl x)
  then show ?thesis by (simp add: process_file_defs)
next
  case t: (Inr p)
  show ?thesis
  proof (cases "load_document_try e p (lower (last (py_split CHR ''.'' (name f))))")
    case (Inl x)
    with t show ?thesis by (simp add: process_file_defs split: option.splits)
  next
    case l: (Inr docs)
    show ?thesis
    proof (cases "docs = []")
      case True
      with t l show ?thesis by (simp add: process_file_defs split: option.splits)
    next
      case d: False
      show ?thesis
      proof (cases "split_documents e docs")
        case (Inl x)
        with t l d show ?thesis by (simp add: process_file_defs)
      next
        case sp: (Inr split)
        show ?thesis
        proof (cases "vectorstore s")
          case None
          with t l d sp show ?thesis by (simp add: process_file_defs)
        next
          case v: (Some vs)
          show ?thesis
          proof (cases "add_documents e
                   (add_metadata (name f) (lower (last (py_split CHR ''.'' (name f)))) split)")
            case (Some x)
            with t l d sp v show ?thesis by (simp add: process_file_defs)
          next
            case None
            with t l d sp v show ?thesis by (simp add: process_file_defs split: option.splits)
          qed
        qed
      qed
    qed
  qed
qed

lemma process_files_pipeline:
  "\<exists>w'. process_files e fs n s w =
     (n + length (List.map_filter (pipeline e (vectorstore s \<noteq> None)) fs),
      s\<lparr>vectorstore :=
           map_option
             (\<lambda>vs. Chroma (collection vs @
                             concat (List.map_filter (pipeline e (vectorstore s \<noteq> None)) fs)))
             (vectorstore s),
        documents :=
           documents s @ concat (List.map_filter (pipeline e (vectorstore s \<noteq> None)) fs)\<rparr>,
      w')"
proof (induction fs arbitrary: n s w)
  case Nil
  then show ?case by (cases "vectorstore s") (simp_all add: List.map_filter_simps)
next
  case (Cons f fs)
  obtain w1 where 1: "process_file e f n s w =
     (case pipeline e (vectorstore s \<noteq> None) f of
        None \<Rightarrow> (n, s, w1)
      | Some texts \<Rightarrow>
          (n + 1,
           s\<lparr>vectorstore := map_option (\<lambda>vs. Chroma (collection vs @ texts)) (vectorstore s),
             documents := documents s @ texts\<rparr>, w1))"
    using process_file_pipeline [of e f n s w] by blast
  show ?case
  proof (cases "pipeline e (vectorstore s \<noteq> None) f")
    case None
    with 1 Cons.IH [of n s w1] show ?thesis by (simp add: List.map_filter_simps)
  next
    case (Some texts)
    let ?s1 = "s\<lparr>vectorstore := map_option (\<lambda>vs. Chroma (collection vs @ texts)) (vectorstore s),
                 documents := documents s @ texts\<rparr>"
    have p: "(vectorstore ?s1 \<noteq> None) = (vectorstore s \<noteq> None)" by simp
    from Cons.IH [of "n + 1" ?s1 w1] obtain w' where
      2: "process_files e fs (n + 1) ?s1 w1 =
           (n + 1 + length (List.map_filter (pipeline e (vectorstore s \<noteq> None)) fs),
            ?s1\<lparr>vectorstore :=
                 map_option
                   (\<lambda>vs. Chroma (collection vs @
                             concat (List.map_filter (pipeline e (vectorstore s \<noteq> None)) fs)))
                   (vectorstore ?s1),
               documents :=
                 documents ?s1 @ concat (List.map_filter (pipeline e (vectorstore s \<noteq> None)) fs)\<rparr>,
            w')"
      unfolding p by blast
    from 1 Some 2 show ?thesis
      by (cases "vectorstore s") (simp_all add: List.map_filter_simps)
  qed
qed


lemma pipeline_notes_txt:
  "pipeline demo_env True notes_txt = Some (add_metadata ''notes.txt'' ''txt'' [paris])"
  by (simp add: pipeline_def demo_env_def notes_txt_def load_document_try_def lower_txt)



section \<open>Statistics after one file\<close>

lemma sources_add_metadata:
  "List.map_filter (\<lambda>doc. metadata doc ''source'') (add_metadata file_name ext split) =
     map (\<lambda>t. file_name) split"
  by (induction split) (simp_all add: add_metadata_def List.map_filter_simps)

lemma pipeline_Some:
  "pipeline e b f = Some texts \<Longrightarrow>
   \<exists>split. texts = add_metadata (name f) (lower (last (py_split CHR ''.'' (name f)))) split"
  by (auto simp: pipeline_def split: sum.splits if_splits)

text \<open>
  C8. Start from an empty knowledge base (an empty store, no documents) with a store
  whose \<open>count()\<close> works, and ingest one file whose pipeline yields the chunks
  \<open>texts\<close>, at least one. Then \<open>process_documents\<close> returns 1, and
  \<open>get_knowledge_base_stats\<close> reports \<open>length texts\<close> documents and exactly one
  source, the file's name.
\<close>

theorem ingest_one_file_stats:
  "vectorstore s = Some (Chroma []) \<Longrightarrow> documents s = [] \<Longrightarrow> collection_count e = None \<Longrightarrow>
   pipeline e True f = Some texts \<Longrightarrow> texts \<noteq> [] \<Longrightarrow>
   \<exists>s' w'. process_documents e [f] s w = (Inr 1, s', w') \<and>
     fst (get_knowledge_base_stats e s' w') =
       Inr \<lparr>total_documents = length texts, sources = {name f}\<rparr>"
proof -
  assume v: "vectorstore s = Some (Chroma [])" and d: "documents s = []"
    and c: "collection_count e = None" and p: "pipeline e True f = Some texts"
    and n: "texts \<noteq> []"
  from pipeline_Some [OF p] obtain split where
    t: "texts = add_metadata (name f) (lower (last (py_split CHR ''.'' (name f)))) split"
    by blast
  with n have sn: "split \<noteq> []" by (auto simp: add_metadata_def)
  have src: "set (List.map_filter (\<lambda>doc. metadata doc ''source'') texts) = {name f}"
    unfolding t sources_add_metadata using sn by (cases split) auto
  from v have hs: "(vectorstore s \<noteq> None) = True" by simp
  from process_files_pipeline [of e "[f]" 0 s w] obtain w1 where
    1: "process_files e [f] 0 s w =
         (1, s\<lparr>vectorstore := Some (Chroma texts), documents := texts\<rparr>, w1)"
    unfolding hs using v d p by (auto simp: List.map_filter_simps)
  from 1 c src show ?thesis
    by (simp add: process_documents_def get_knowledge_base_stats_def count_def)
qed

theorem ingest_one_file_stats_witness:
  "vectorstore empty_system = Some (Chroma []) \<and> documents empty_system = [] \<and>
   collection_count demo_env = None \<and>
   pipeline demo_env True notes_txt = Some (add_metadata ''notes.txt'' ''txt'' [paris]) \<and>
   add_metadata ''notes.txt'' ''txt'' [paris] \<noteq> [] \<and>
   (\<exists>s' w'. process_documents demo_env [notes_txt] empty_system empty_world = (Inr 1, s', w') \<and>
     fst (get_knowledge_base_stats demo_env s' w') =
       Inr \<lparr>total_documents = 1, sources = {''notes.txt''}\<rparr>)"
proof -
  have v: "vectorstore empty_system = Some (Chroma [])" and d: "documents empty_system = []"
    by (simp_all add: empty_system_def)
  have c: "collection_count demo_env = None"
    by (simp add: demo_env_def)
  have n: "add_metadata ''notes.txt'' ''txt'' [paris] \<noteq> []"
    by (simp add: add_metadata_def)
  from ingest_one_file_stats [OF v d c pipeline_notes_txt n, of empty_world]
  show ?thesis using v d c n pipeline_notes_txt
    by (simp add: notes_txt_def add_metadata_def)
qed

end
